theory Spec2Isabelle
  imports Main
begin

section \<open>The serve command of the GraphQL Mesh CLI\<close>

text \<open>
  This theory embeds \<^verbatim>\<open>serveMesh\<close> of
  \<^verbatim>\<open>packages/cli/src/commands/serve/serve.ts\<close>. The function only has effects:
  it forks worker processes, writes to the logger, registers middleware on an Express
  application, creates an HTTP(S) and a WebSocket server and asks the HTTP server to
  listen. The model threads a record of these effects (\<open>process\<close>) through the body of
  the function, in the order of the source, and represents everything the function reads
  from the outside world (the cluster role, the CPU count, the file system, module
  loading, the outcome of binding the socket) by a record \<open>env\<close>.
\<close>

subsection \<open>JavaScript strings\<close>

text \<open>
  \<^verbatim>\<open>String.prototype.toLowerCase\<close> on the ASCII letters. The strings the source
  lower-cases are an HTTP method name and \<^verbatim>\<open>NODE_ENV\<close>, which it compares with
  \<^verbatim>\<open>'production'\<close>; other characters are left unchanged.
\<close>

definition toLowerCase_char :: "char \<Rightarrow> char" where
  "toLowerCase_char c =
     (case map_of (zip ''ABCDEFGHIJKLMNOPQRSTUVWXYZ'' ''abcdefghijklmnopqrstuvwxyz'') c of
        None \<Rightarrow> c
      | Some l \<Rightarrow> l)"

definition toLowerCase :: "string \<Rightarrow> string" where
  "toLowerCase s = map toLowerCase_char s"

text \<open>Decimal rendering of a number inside a template literal.\<close>

fun string_of_nat :: "nat \<Rightarrow> string" where
  "string_of_nat n =
     (if n < 10 then [''0123456789'' ! n]
      else string_of_nat (n div 10) @ [''0123456789'' ! (n mod 10)])"

declare string_of_nat.simps [simp del]

definition string_of_int :: "int \<Rightarrow> string" where
  "string_of_int i = (if i < 0 then ''-'' @ string_of_nat (nat (- i)) else string_of_nat (nat i))"

text \<open>A string is truthy when it is not empty; an absent value is falsy.\<close>

fun truthy_string :: "string option \<Rightarrow> bool" where
  "truthy_string None = False"
| "truthy_string (Some s) = (s \<noteq> [])"

subsection \<open>The configuration: \<^verbatim>\<open>YamlConfig.ServeConfig\<close>\<close>

text \<open>
  Every field of the configuration is optional; \<open>None\<close> is JavaScript's
  \<^verbatim>\<open>undefined\<close>. \<^verbatim>\<open>fork\<close> is a number or a boolean.
\<close>

datatype fork_value = ForkBool bool | ForkNum int

type_synonym cors_options = string

record ssl_credentials =
  key :: string
  cert :: string

record upload_config =
  maxFileSize :: "nat option"
  maxFiles :: "nat option"

text \<open>
  An entry of \<^verbatim>\<open>handlers\<close> either names a handler module (it has the property
  \<^verbatim>\<open>handler\<close>) or bridges a webhook to a pub/sub topic (it has the property
  \<^verbatim>\<open>pubsubTopic\<close>). \<open>handler_method\<close> is the property \<^verbatim>\<open>method\<close> of a handler
  entry.
\<close>

datatype handler_config =
    ExpressHandler (path: string) (handler: string) (handler_method: "string option")
  | WebhookHandler (path: string) (pubsubTopic: string) (payload: "string option")

record serve_config =
  fork :: "fork_value option"
  exampleQuery :: "string option"
  port :: "int option"
  hostname :: "string option"
  cors :: "cors_options option"
  handlers :: "handler_config list option"
  staticFiles :: "string option"
  playground :: "bool option"
  upload :: "upload_config option"
  maxRequestBodySize :: "string option"
  sslCredentials :: "ssl_credentials option"

text \<open>The default value \<^verbatim>\<open>{}\<close> of the configuration parameter.\<close>

definition empty_config :: serve_config where
  "empty_config =
     \<lparr>fork = None, exampleQuery = None, port = None, hostname = None, cors = None,
      handlers = None, staticFiles = None, playground = None, upload = None,
      maxRequestBodySize = None, sslCredentials = None\<rparr>"

text \<open>Truthiness of \<^verbatim>\<open>fork\<close>: \<^verbatim>\<open>undefined\<close>, \<^verbatim>\<open>false\<close> and \<open>0\<close> are falsy.\<close>

fun truthy_fork :: "fork_value option \<Rightarrow> bool" where
  "truthy_fork None = False"
| "truthy_fork (Some (ForkBool b)) = b"
| "truthy_fork (Some (ForkNum n)) = (n \<noteq> 0)"

subsection \<open>The outside world\<close>

datatype error = TypeError string | RangeError string | ExternalError string

datatype handler_fn = HandlerFn string

datatype bind_result = Listening | BindError string

text \<open>
  \<^item> \<open>isMaster\<close>, \<open>cpus\<close>: \<^verbatim>\<open>cluster.isMaster\<close> and \<^verbatim>\<open>os.cpus().length\<close>;
  \<^item> \<open>NODE_ENV\<close>, \<open>cwd\<close>, \<open>dirname\<close>: \<^verbatim>\<open>process.env.NODE_ENV\<close>,
    \<^verbatim>\<open>process.cwd()\<close> and \<^verbatim>\<open>__dirname\<close>;
  \<^item> \<open>readFile\<close>, \<open>pathExists\<close>, \<open>join\<close>: the file system and \<^verbatim>\<open>path.join\<close>;
  \<^item> \<open>createHTTPSServer\<close>: whether \<^verbatim>\<open>https.createServer\<close> accepts the key and
    certificate (it throws otherwise);
  \<^item> \<open>loadFromModuleExportExpression\<close>: the module loader of
    \<^verbatim>\<open>@graphql-mesh/utils\<close>, an asynchronous function; \<open>load_latency\<close> is the time
    at which its promise settles;
  \<^item> \<open>loadDocuments\<close>: the \<^verbatim>\<open>rawSDL\<close> of each document found for a pointer and a
    working directory;
  \<^item> \<open>bind\<close>: what happens to the socket after \<^verbatim>\<open>listen\<close>: the server emits
    \<^verbatim>\<open>'listening'\<close>, or \<^verbatim>\<open>'error'\<close> with an error whose message is given.
\<close>

record env =
  isMaster :: bool
  cpus :: nat
  NODE_ENV :: "string option"
  cwd :: string
  dirname :: string
  readFile :: "string \<Rightarrow> error + string"
  pathExists :: "string \<Rightarrow> bool"
  join :: "string list \<Rightarrow> string"
  createHTTPSServer :: "string \<Rightarrow> string \<Rightarrow> error option"
  loadFromModuleExportExpression :: "string \<Rightarrow> error + handler_fn"
  load_latency :: "string \<Rightarrow> nat"
  loadDocuments :: "string \<Rightarrow> string \<Rightarrow> error + string option list"
  bind :: "int \<Rightarrow> string \<Rightarrow> bind_result"

subsection \<open>The effects of a run\<close>

datatype log_entry = Info string | Error string

datatype middleware =
    Cors cors_options
  | BodyParserJson string
  | CookieParser
  | ExpressStatic string
  | SendFile string
  | GraphqlUploadExpress nat nat
  | GraphqlHandler
  | PubSubHandler
  | LoadedHandler handler_fn
  | PubSubBridge string "string option"
  | PlaygroundMiddleware "string option" string

text \<open>
  A call \<^verbatim>\<open>app[verb](route, fn, ...)\<close>: \<open>verb\<close> is the name of the method of the
  Express application (\<^verbatim>\<open>use\<close>, \<^verbatim>\<open>get\<close>, ...), \<open>route\<close> is absent for a
  global \<^verbatim>\<open>app.use(fn)\<close>.
\<close>

datatype mount = Mount (verb: string) (route: "string option") (fns: "middleware list")

datatype server = HTTPServer | HTTPSServer string string

record ws_server =
  ws_path :: string
  graphql_ws :: bool

record process =
  forks :: nat
  logs :: "log_entry list"
  settings :: "(string \<times> string) list"
  httpServer :: "server option"
  stack :: "mount list"
  wsServer :: "ws_server option"
  registeredPaths :: "string set"
  listening :: "(int \<times> string) option"

definition init_process :: process where
  "init_process =
     \<lparr>forks = 0, logs = [], settings = [], httpServer = None, stack = [], wsServer = None,
      registeredPaths = {}, listening = None\<rparr>"

text \<open>
  The promise returned by \<^verbatim>\<open>serveMesh\<close> is fulfilled, or rejected with the
  exception that left the function; both carry the effects performed so far.
\<close>

datatype settled = Resolved process | Rejected error process

fun state_of :: "settled \<Rightarrow> process" where
  "state_of (Resolved p) = p"
| "state_of (Rejected e p) = p"

fun and_then :: "settled \<Rightarrow> (process \<Rightarrow> settled) \<Rightarrow> settled" where
  "and_then (Resolved p) f = f p"
| "and_then (Rejected e p) f = Rejected e p"

fun resolved :: "settled \<Rightarrow> bool" where
  "resolved (Resolved p) = True"
| "resolved (Rejected e p) = False"

fun rejection :: "settled \<Rightarrow> error option" where
  "rejection (Resolved p) = None"
| "rejection (Rejected e p) = Some e"

definition clusterFork :: "process \<Rightarrow> process" where
  "clusterFork p = p\<lparr>forks := Suc (forks p)\<rparr>"

definition logger_info :: "string \<Rightarrow> process \<Rightarrow> process" where
  "logger_info msg p = p\<lparr>logs := logs p @ [Info msg]\<rparr>"

definition logger_error :: "string \<Rightarrow> process \<Rightarrow> process" where
  "logger_error msg p = p\<lparr>logs := logs p @ [Error msg]\<rparr>"

definition app_set :: "string \<Rightarrow> string \<Rightarrow> process \<Rightarrow> process" where
  "app_set k v p = p\<lparr>settings := settings p @ [(k, v)]\<rparr>"

definition app_mount :: "mount \<Rightarrow> process \<Rightarrow> process" where
  "app_mount m p = p\<lparr>stack := stack p @ [m]\<rparr>"

subsection \<open>\<^verbatim>\<open>serveMesh\<close>: the supervisor branch\<close>

definition graphqlPath :: string where
  "graphqlPath = ''/graphql''"

definition protocol :: "serve_config \<Rightarrow> string" where
  "protocol c = (case sslCredentials c of None \<Rightarrow> ''http'' | Some creds \<Rightarrow> ''https'')"

text \<open>The destructuring default \<^verbatim>\<open>hostname = 'localhost'\<close>.\<close>

definition hostname_of :: "serve_config \<Rightarrow> string" where
  "hostname_of c = (case hostname c of None \<Rightarrow> ''localhost'' | Some h \<Rightarrow> h)"

text \<open>\<^verbatim>\<open>`${protocol}://${hostname}:${port}${graphqlPath}`\<close>\<close>

definition serverUrl :: "serve_config \<Rightarrow> string" where
  "serverUrl c =
     protocol c @ ''://'' @ hostname_of c @ '':'' @
     (case port c of None \<Rightarrow> ''undefined'' | Some n \<Rightarrow> string_of_int n) @ graphqlPath"

text \<open>The UTF-8 bytes of the two code points that open both serving messages.\<close>

definition spider_web :: string where
  "spider_web = [CHR 0xF0, CHR 0x9F, CHR 0x95, CHR 0xB8, CHR 0xEF, CHR 0xB8, CHR 0x8F]"

text \<open>\<^verbatim>\<open>fork > 1 ? fork : cpus().length\<close>; for a boolean, \<^verbatim>\<open>true > 1\<close> compares
  \<open>1 > 1\<close>.\<close>

fun forkNum :: "env \<Rightarrow> fork_value option \<Rightarrow> nat" where
  "forkNum e (Some (ForkNum n)) = (if 1 < n then nat n else cpus e)"
| "forkNum e (Some (ForkBool b)) = cpus e"
| "forkNum e None = cpus e"

text \<open>\<^verbatim>\<open>for (let i = 0; i < forkNum; i++) { clusterFork(); }\<close>\<close>

function fork_loop :: "nat \<Rightarrow> nat \<Rightarrow> process \<Rightarrow> process" where
  "fork_loop i n p = (if i < n then fork_loop (Suc i) n (clusterFork p) else p)"
  by pat_completeness auto
termination
  by (relation "measure (\<lambda>(i, n, p). n - i)") auto

declare fork_loop.simps [simp del]

definition serve_master :: "env \<Rightarrow> serve_config \<Rightarrow> process \<Rightarrow> settled" where
  "serve_master e c p =
     (let n = forkNum e (fork c) in
      Resolved (logger_info
        (spider_web @ '' => Serving GraphQL Mesh: '' @ serverUrl c @ '' in '' @
         string_of_nat n @ '' forks'')
        (fork_loop 0 n p)))"

subsection \<open>\<^verbatim>\<open>serveMesh\<close>: the listener branch\<close>

text \<open>
  Creating the server. The two files are read together with \<^verbatim>\<open>Promise.all\<close>; the
  model reports the failure of the key before that of the certificate.
\<close>

definition create_server :: "env \<Rightarrow> serve_config \<Rightarrow> process \<Rightarrow> settled" where
  "create_server e c p =
     (case sslCredentials c of
        Some creds \<Rightarrow>
          (case readFile e (key creds) of
             Inl err \<Rightarrow> Rejected err p
           | Inr k \<Rightarrow>
               (case readFile e (cert creds) of
                  Inl err \<Rightarrow> Rejected err p
                | Inr crt \<Rightarrow>
                    (case createHTTPSServer e k crt of
                       Some err \<Rightarrow> Rejected err p
                     | None \<Rightarrow> Resolved (p\<lparr>httpServer := Some (HTTPSServer k crt)\<rparr>))))
      | None \<Rightarrow> Resolved (p\<lparr>httpServer := Some HTTPServer\<rparr>))"

text \<open>CORS (when configured), the JSON body parser with its size limit, the cookie parser.\<close>

definition mount_parsers :: "serve_config \<Rightarrow> process \<Rightarrow> process" where
  "mount_parsers c p =
     (let p1 = (case cors c of
                  Some corsConfig \<Rightarrow> app_mount (Mount ''use'' None [Cors corsConfig]) p
                | None \<Rightarrow> p);
          limit = (case maxRequestBodySize c of None \<Rightarrow> ''100kb'' | Some l \<Rightarrow> l)
      in app_mount (Mount ''use'' None [CookieParser])
           (app_mount (Mount ''use'' None [BodyParserJson limit]) p1))"

definition mount_static :: "env \<Rightarrow> string \<Rightarrow> serve_config \<Rightarrow> process \<Rightarrow> process" where
  "mount_static e baseDir c p =
     (case staticFiles c of
        None \<Rightarrow> p
      | Some dir \<Rightarrow>
          if dir = [] then p
          else
            (let p1 = app_mount (Mount ''use'' None [ExpressStatic dir]) p;
                 indexPath = join e [baseDir, dir, ''index.html'']
             in if pathExists e indexPath
                then app_mount (Mount ''get'' (Some ''/'') [SendFile indexPath]) p1
                else p1))"

text \<open>
  The GraphQL endpoint with the upload limits (defaults \<open>10000000\<close> and \<open>10\<close>, also
  when \<^verbatim>\<open>upload\<close> itself is absent), the WebSocket server on the same path with the
  subscription protocol attached to it, and the middleware that puts the pub/sub bus on
  every request.
\<close>

definition maxFileSize_of :: "serve_config \<Rightarrow> nat" where
  "maxFileSize_of c =
     (case upload c of
        None \<Rightarrow> 10000000
      | Some u \<Rightarrow> (case maxFileSize u of None \<Rightarrow> 10000000 | Some n \<Rightarrow> n))"

definition maxFiles_of :: "serve_config \<Rightarrow> nat" where
  "maxFiles_of c =
     (case upload c of
        None \<Rightarrow> 10
      | Some u \<Rightarrow> (case maxFiles u of None \<Rightarrow> 10 | Some n \<Rightarrow> n))"

definition mount_graphql :: "serve_config \<Rightarrow> process \<Rightarrow> process" where
  "mount_graphql c p =
     (let p1 = app_mount
                 (Mount ''use'' (Some graphqlPath)
                    [GraphqlUploadExpress (maxFileSize_of c) (maxFiles_of c), GraphqlHandler]) p;
          p2 = p1\<lparr>wsServer := Some \<lparr>ws_path = graphqlPath, graphql_ws = False\<rparr>\<rparr>;
          p3 = p2\<lparr>wsServer := map_option (\<lambda>w. w\<lparr>graphql_ws := True\<rparr>) (wsServer p2)\<rparr>
      in app_mount (Mount ''use'' None [PubSubHandler]) p3)"

subsection \<open>Mounting the configured handlers\<close>

text \<open>
  The source maps an \<^verbatim>\<open>async\<close> function over the entries and awaits
  \<^verbatim>\<open>Promise.all\<close> of the results. Each call runs synchronously up to its first
  \<^verbatim>\<open>await\<close>: it records the path and, for a webhook entry, mounts the bridge at
  once (that branch awaits nothing); for a handler entry it starts loading the module
  and suspends.
\<close>

definition start_handler :: "handler_config \<Rightarrow> process \<Rightarrow> process" where
  "start_handler h p =
     (let p1 = p\<lparr>registeredPaths := insert (path h) (registeredPaths p)\<rparr> in
      case h of
        ExpressHandler pth expr m \<Rightarrow> p1
      | WebhookHandler pth topic pl \<Rightarrow>
          app_mount (Mount ''use'' (Some pth) [PubSubBridge topic pl]) p1)"

fun start_handlers :: "handler_config list \<Rightarrow> process \<Rightarrow> process" where
  "start_handlers [] p = p"
| "start_handlers (h # hs) p = start_handlers hs (start_handler h p)"

text \<open>
  The suspended calls resume after the synchronous pass, each when its module has
  loaded: in the order of \<open>load_latency\<close>, and in the order of the list among those
  that settle together (\<open>sort_key\<close> is stable).
\<close>

fun is_express :: "handler_config \<Rightarrow> bool" where
  "is_express (ExpressHandler pth expr m) = True"
| "is_express (WebhookHandler pth topic pl) = False"

fun settle_time :: "env \<Rightarrow> handler_config \<Rightarrow> nat" where
  "settle_time e (ExpressHandler pth expr m) = load_latency e expr"
| "settle_time e (WebhookHandler pth topic pl) = 0"

definition completion_order :: "env \<Rightarrow> handler_config list \<Rightarrow> handler_config list" where
  "completion_order e hs = sort_key (settle_time e) (filter is_express hs)"

text \<open>
  The methods of the Express application that register a handler for a route. The
  configuration type admits the methods \<^verbatim>\<open>GET\<close>, \<^verbatim>\<open>POST\<close>,
  \<^verbatim>\<open>DELETE\<close> and \<^verbatim>\<open>PATCH\<close>; calling a property that is no function is a
  \<^verbatim>\<open>TypeError\<close>.
\<close>

definition routing_methods :: "string list" where
  "routing_methods =
     [''use'', ''all'', ''get'', ''post'', ''put'', ''delete'', ''patch'', ''head'', ''options'']"

text \<open>
  The rest of a handler entry's call:
  \<^verbatim>\<open>app[handlerConfig.method.toLowerCase() || 'use'](handlerConfig.path, handlerFn)\<close>.
  A rejected load, and \<^verbatim>\<open>toLowerCase\<close> read from an absent method, reject the call.
\<close>

fun resume_handler :: "env \<Rightarrow> handler_config \<Rightarrow> process \<Rightarrow> settled" where
  "resume_handler e (ExpressHandler pth expr m) p =
     (case loadFromModuleExportExpression e expr of
        Inl err \<Rightarrow> Rejected err p
      | Inr handlerFn \<Rightarrow>
          (case m of
             None \<Rightarrow>
               Rejected (TypeError ''Cannot read property toLowerCase of undefined'') p
           | Some s \<Rightarrow>
               (let l = toLowerCase s;
                    v = (if l = [] then ''use'' else l)
                in if v \<in> set routing_methods
                   then Resolved (app_mount (Mount v (Some pth) [LoadedHandler handlerFn]) p)
                   else Rejected (TypeError (''app.'' @ v @ '' is not a function'')) p)))"
| "resume_handler e (WebhookHandler pth topic pl) p = Resolved p"

text \<open>
  \<^verbatim>\<open>Promise.all\<close> rejects with the first rejection, and \<^verbatim>\<open>serveMesh\<close> with it.
  The model keeps the state at that point; calls still pending in the source resume
  later, on an application that is never asked to listen.
\<close>

fun resume_handlers :: "env \<Rightarrow> handler_config list \<Rightarrow> process \<Rightarrow> settled" where
  "resume_handlers e [] p = Resolved p"
| "resume_handlers e (h # hs) p = and_then (resume_handler e h p) (resume_handlers e hs)"

text \<open>\<^verbatim>\<open>handlers?.map(...) || []\<close>\<close>

definition mount_handlers :: "env \<Rightarrow> handler_config list option \<Rightarrow> process \<Rightarrow> settled" where
  "mount_handlers e hso p =
     (case hso of
        None \<Rightarrow> Resolved p
      | Some hs \<Rightarrow> resume_handlers e (completion_order e hs) (start_handlers hs p))"

subsection \<open>The playground and the listener\<close>

text \<open>
  \<^verbatim>\<open>typeof playground !== 'undefined' ? playground
     : process.env.NODE_ENV?.toLowerCase() !== 'production'\<close>
\<close>

definition playground_enabled :: "env \<Rightarrow> serve_config \<Rightarrow> bool" where
  "playground_enabled e c =
     (case playground c of
        Some b \<Rightarrow> b
      | None \<Rightarrow> map_option toLowerCase (NODE_ENV e) \<noteq> Some ''production'')"

text \<open>
  \<^verbatim>\<open>documents.reduce((acc, doc) => (acc += doc.rawSDL! + '\n'), '')\<close>; a document
  without \<^verbatim>\<open>rawSDL\<close> contributes the text \<^verbatim>\<open>undefined\<close>.
\<close>

definition rawSDL_text :: "string option \<Rightarrow> string" where
  "rawSDL_text d = (case d of None \<Rightarrow> ''undefined'' | Some t \<Rightarrow> t)"

definition defaultQuery_of :: "string option list \<Rightarrow> string" where
  "defaultQuery_of documents = foldl (\<lambda>acc doc. acc @ rawSDL_text doc @ [CHR 0x0A]) [] documents"

text \<open>
  \<^verbatim>\<open>defaultQuery\<close> stays \<^verbatim>\<open>undefined\<close> without an example query; loading the
  documents may reject.
\<close>

definition load_defaultQuery :: "env \<Rightarrow> string \<Rightarrow> serve_config \<Rightarrow> error + string option" where
  "load_defaultQuery e baseDir c =
     (case exampleQuery c of
        None \<Rightarrow> Inr None
      | Some q \<Rightarrow>
          if q = [] then Inr None
          else
            (case loadDocuments e q baseDir of
               Inl err \<Rightarrow> Inl err
             | Inr documents \<Rightarrow> Inr (Some (defaultQuery_of documents))))"

definition mount_playground :: "env \<Rightarrow> string \<Rightarrow> serve_config \<Rightarrow> process \<Rightarrow> settled" where
  "mount_playground e baseDir c p =
     (if playground_enabled e c then
        (case load_defaultQuery e baseDir c of
           Inl err \<Rightarrow> Rejected err p
         | Inr defaultQuery \<Rightarrow>
             (let playgroundMiddleware = PlaygroundMiddleware defaultQuery graphqlPath;
                  p1 = (if \<not> truthy_string (staticFiles c)
                        then app_mount (Mount ''get'' (Some ''/'') [playgroundMiddleware]) p
                        else p);
                  p2 = app_mount (Mount ''get'' (Some graphqlPath) [playgroundMiddleware]) p1
              in Resolved
                   (app_mount (Mount ''use'' None [ExpressStatic (join e [dirname e, ''./public''])])
                      p2)))
      else Resolved p)"

text \<open>
  \<^verbatim>\<open>httpServer.listen(parseInt(port.toString()), hostname, cb).on('error', ...)\<close>.
  Reading \<^verbatim>\<open>toString\<close> from an absent port is a \<^verbatim>\<open>TypeError\<close>, and Node
  refuses a port outside \<open>0..65535\<close> with a \<^verbatim>\<open>RangeError\<close> before it binds. The
  callback runs on \<^verbatim>\<open>'listening'\<close>, the error handler on \<^verbatim>\<open>'error'\<close>; the
  model includes their effects in the final state.
\<close>

definition listen :: "env \<Rightarrow> serve_config \<Rightarrow> process \<Rightarrow> settled" where
  "listen e c p =
     (case port c of
        None \<Rightarrow> Rejected (TypeError ''Cannot read property toString of undefined'') p
      | Some n \<Rightarrow>
          if n < 0 \<or> 65535 < n
          then Rejected (RangeError ''options.port should be >= 0 and < 65536'') p
          else
            (case bind e n (hostname_of c) of
               Listening \<Rightarrow>
                 (let p1 = p\<lparr>listening := Some (n, hostname_of c)\<rparr> in
                  Resolved
                    (if \<not> truthy_fork (fork c)
                     then logger_info (spider_web @ '' => Serving GraphQL Mesh: '' @ serverUrl c) p1
                     else p1))
             | BindError msg \<Rightarrow>
                 Resolved (logger_error (''Unable to start GraphQL-Mesh: '' @ msg) p)))"

definition serve_listener :: "env \<Rightarrow> string \<Rightarrow> serve_config \<Rightarrow> process \<Rightarrow> settled" where
  "serve_listener e baseDir c p0 =
     and_then (create_server e c (app_set ''trust proxy'' ''loopback'' p0)) (\<lambda>p1.
     and_then
       (mount_handlers e (handlers c)
          (mount_graphql c (mount_static e baseDir c (mount_parsers c p1)))) (\<lambda>p2.
     and_then (mount_playground e baseDir c p2) (\<lambda>p3.
     listen e c p3)))"

text \<open>
  The whole function, started in a process that has done nothing yet. \<open>baseDir\<close>
  defaults to the working directory and the configuration to \<^verbatim>\<open>{}\<close>.
\<close>

definition serveMesh :: "env \<Rightarrow> string option \<Rightarrow> serve_config option \<Rightarrow> settled" where
  "serveMesh e baseDir config =
     (let c = (case config of None \<Rightarrow> empty_config | Some c' \<Rightarrow> c');
          dir = (case baseDir of None \<Rightarrow> cwd e | Some d \<Rightarrow> d)
      in if isMaster e \<and> truthy_fork (fork c)
         then serve_master e c init_process
         else serve_listener e dir c init_process)"

subsection \<open>Observing the middleware stack\<close>

fun is_entry_fn :: "middleware \<Rightarrow> bool" where
  "is_entry_fn (LoadedHandler f) = True"
| "is_entry_fn (PubSubBridge topic pl) = True"
| "is_entry_fn other = False"

fun is_playground_fn :: "middleware \<Rightarrow> bool" where
  "is_playground_fn (PlaygroundMiddleware q gp) = True"
| "is_playground_fn other = False"

text \<open>The registrations made for the configured handlers, and those of the playground.\<close>

definition is_handler_mount :: "mount \<Rightarrow> bool" where
  "is_handler_mount m = list_ex is_entry_fn (fns m)"

definition is_playground_mount :: "mount \<Rightarrow> bool" where
  "is_playground_mount m = list_ex is_playground_fn (fns m)"

definition handler_mounts :: "process \<Rightarrow> mount list" where
  "handler_mounts p = filter is_handler_mount (stack p)"

definition playground_mounts :: "process \<Rightarrow> mount list" where
  "playground_mounts p = filter is_playground_mount (stack p)"


text \<open>
  What one entry registers when it is the only entry of the list: the reference for
  ``the entries are mounted in the order of the configuration''.
\<close>

definition entry_mounts :: "env \<Rightarrow> handler_config \<Rightarrow> mount list" where
  "entry_mounts e h = stack (state_of (mount_handlers e (Some [h]) init_process))"

definition configuration_order :: "env \<Rightarrow> handler_config list \<Rightarrow> mount list" where
  "configuration_order e hs = concat (map (entry_mounts e) hs)"

subsection \<open>The webhook bridge at request time\<close>

text \<open>
  The handler that \<open>PubSubBridge topic payload\<close> stands for:
  \<^verbatim>\<open>(req, res) => { let payload = req.body;
     if (handlerConfig.payload) { payload = get(payload, handlerConfig.payload); }
     pubsub.publish(handlerConfig.pubsubTopic, payload); res.end(); }\<close>
  \<^verbatim>\<open>get\<close> is lodash's and is a parameter of the model. The result of
  \<^verbatim>\<open>publish\<close> is not awaited.
\<close>

datatype json =
    JUndefined
  | JNull
  | JBool bool
  | JNumber int
  | JString string
  | JArray "json list"
  | JObject "(string \<times> json) list"

record request =
  req_method :: string
  url :: string
  body :: json

record response =
  statusCode :: nat
  written :: string
  ended :: bool

text \<open>A response as Node hands it to a handler.\<close>

definition fresh_response :: response where
  "fresh_response = \<lparr>statusCode = 200, written = [], ended = False\<rparr>"

text \<open>The bus, and next to it the number of operations executed against the schema.\<close>

record runtime =
  published :: "(string \<times> json) list"
  subscribers :: "string list"
  executions :: nat

definition publish :: "string \<Rightarrow> json \<Rightarrow> runtime \<Rightarrow> runtime" where
  "publish topic v r = r\<lparr>published := published r @ [(topic, v)]\<rparr>"

definition res_end :: "response \<Rightarrow> response" where
  "res_end res = res\<lparr>ended := True\<rparr>"

definition pubSubBridge ::
  "(json \<Rightarrow> string \<Rightarrow> json) \<Rightarrow> string \<Rightarrow> string option \<Rightarrow>
   request \<Rightarrow> response \<Rightarrow> runtime \<Rightarrow> response \<times> runtime" where
  "pubSubBridge get topic pl req res r =
     (let payload = body req;
          payload' = (case pl of
                        None \<Rightarrow> payload
                      | Some pth \<Rightarrow> if pth = [] then payload else get payload pth);
          r' = publish topic payload' r
      in (res_end res, r'))"

text \<open>
  For examples: lodash's \<^verbatim>\<open>get\<close> on a path of plain property names separated by
  dots, which yields \<^verbatim>\<open>undefined\<close> where the path leaves the value.
\<close>

fun split_dots :: "string \<Rightarrow> string \<Rightarrow> string list" where
  "split_dots acc [] = [rev acc]"
| "split_dots acc (ch # cs) =
     (if ch = CHR ''.'' then rev acc # split_dots [] cs else split_dots (ch # acc) cs)"

fun get_in :: "json \<Rightarrow> string list \<Rightarrow> json" where
  "get_in v [] = v"
| "get_in (JObject kvs) (k # ks) =
     (case map_of kvs k of None \<Rightarrow> JUndefined | Some v \<Rightarrow> get_in v ks)"
| "get_in v (k # ks) = JUndefined"

definition get_path :: "json \<Rightarrow> string \<Rightarrow> json" where
  "get_path v pth = get_in v (split_dots [] pth)"

subsection \<open>The context of a subscription connection\<close>

text \<open>
  \<^verbatim>\<open>useServer({ schema, execute, subscribe,
     context: ctx => contextBuilder(ctx.extra.request) }, wsServer)\<close>.
  The connection context \<^verbatim>\<open>ctx\<close> is created by the subscription server
  (\<^verbatim>\<open>graphql-ws\<close>) for each socket; \<^verbatim>\<open>ctx.extra.request\<close> is the upgrade
  request.
\<close>

record 'r ws_extra =
  upgrade_request :: 'r

record 'r ws_context =
  extra :: "'r ws_extra"

definition context_option :: "('r \<Rightarrow> 'c) \<Rightarrow> 'r ws_context \<Rightarrow> 'c" where
  "context_option contextBuilder ctx = contextBuilder (upgrade_request (extra ctx))"

text \<open>
  When the option is evaluated is decided by the subscription server, not by
  \<^verbatim>\<open>serveMesh\<close>: \<open>evaluates\<close> says for which protocol messages it does so. A
  connection records the requests given to the context builder and the context of each
  operation.
\<close>

datatype ws_message = ConnectionInit | Subscribe string | Complete string

record ('r, 'c) connection =
  builder_calls :: "'r list"
  operations :: "(string \<times> 'c) list"

definition new_connection :: "('r, 'c) connection" where
  "new_connection = \<lparr>builder_calls = [], operations = []\<rparr>"

fun operation_id :: "ws_message \<Rightarrow> string" where
  "operation_id ConnectionInit = []"
| "operation_id (Subscribe i) = i"
| "operation_id (Complete i) = i"

definition on_message ::
  "(ws_message \<Rightarrow> bool) \<Rightarrow> ('r \<Rightarrow> 'c) \<Rightarrow> 'r ws_context \<Rightarrow>
   ('r, 'c) connection \<Rightarrow> ws_message \<Rightarrow> ('r, 'c) connection" where
  "on_message evaluates contextBuilder ctx s m =
     (if evaluates m
      then s\<lparr>builder_calls := builder_calls s @ [upgrade_request (extra ctx)],
             operations := operations s @ [(operation_id m, context_option contextBuilder ctx)]\<rparr>
      else s)"

definition on_messages ::
  "(ws_message \<Rightarrow> bool) \<Rightarrow> ('r \<Rightarrow> 'c) \<Rightarrow> 'r ws_context \<Rightarrow>
   ws_message list \<Rightarrow> ('r, 'c) connection" where
  "on_messages evaluates contextBuilder ctx ms =
     foldl (on_message evaluates contextBuilder ctx) new_connection ms"

text \<open>
  \<^verbatim>\<open>graphql-ws\<close> evaluates a \<^verbatim>\<open>context\<close> option that is a function when it
  handles a \<^verbatim>\<open>subscribe\<close> message, to fill the \<^verbatim>\<open>contextValue\<close> of that
  operation's execution arguments; it does not evaluate it when the connection opens.
\<close>

fun graphql_ws_evaluates :: "ws_message \<Rightarrow> bool" where
  "graphql_ws_evaluates (Subscribe i) = True"
| "graphql_ws_evaluates other = False"

subsection \<open>The registrations of each phase\<close>

text \<open>
  Closed forms of what the phases of the listener branch add to the middleware stack and
  to the log; the lemmas below relate them to the functions above.
\<close>

definition parser_stack :: "serve_config \<Rightarrow> mount list" where
  "parser_stack c =
     (case cors c of Some corsConfig \<Rightarrow> [Mount ''use'' None [Cors corsConfig]] | None \<Rightarrow> []) @
     [Mount ''use'' None [BodyParserJson (case maxRequestBodySize c of None \<Rightarrow> ''100kb'' | Some l \<Rightarrow> l)],
      Mount ''use'' None [CookieParser]]"

definition static_stack :: "env \<Rightarrow> string \<Rightarrow> serve_config \<Rightarrow> mount list" where
  "static_stack e baseDir c =
     (case staticFiles c of
        None \<Rightarrow> []
      | Some dir \<Rightarrow>
          if dir = [] then []
          else Mount ''use'' None [ExpressStatic dir] #
               (if pathExists e (join e [baseDir, dir, ''index.html''])
                then [Mount ''get'' (Some ''/'') [SendFile (join e [baseDir, dir, ''index.html''])]]
                else []))"

definition graphql_stack :: "serve_config \<Rightarrow> mount list" where
  "graphql_stack c =
     [Mount ''use'' (Some graphqlPath)
        [GraphqlUploadExpress (maxFileSize_of c) (maxFiles_of c), GraphqlHandler],
      Mount ''use'' None [PubSubHandler]]"

definition unchanged_but_stack :: "process \<Rightarrow> process \<Rightarrow> bool" where
  "unchanged_but_stack p q \<longleftrightarrow>
     forks q = forks p \<and> logs q = logs p \<and> settings q = settings p \<and>
     httpServer q = httpServer p \<and> wsServer q = wsServer p \<and> listening q = listening p"

fun bridge_mount :: "handler_config \<Rightarrow> mount list" where
  "bridge_mount (WebhookHandler pth topic pl) = [Mount ''use'' (Some pth) [PubSubBridge topic pl]]"
| "bridge_mount (ExpressHandler pth expr m) = []"

definition playground_stack :: "env \<Rightarrow> string \<Rightarrow> serve_config \<Rightarrow> mount list" where
  "playground_stack e baseDir c =
     (if playground_enabled e c then
        (case load_defaultQuery e baseDir c of
           Inl err \<Rightarrow> []
         | Inr defaultQuery \<Rightarrow>
             (if truthy_string (staticFiles c) then []
              else [Mount ''get'' (Some ''/'') [PlaygroundMiddleware defaultQuery graphqlPath]]) @
             [Mount ''get'' (Some graphqlPath) [PlaygroundMiddleware defaultQuery graphqlPath],
              Mount ''use'' None [ExpressStatic (join e [dirname e, ''./public''])]])
      else [])"

definition listen_logs :: "env \<Rightarrow> serve_config \<Rightarrow> log_entry list" where
  "listen_logs e c =
     (case port c of
        None \<Rightarrow> []
      | Some n \<Rightarrow>
          (case bind e n (hostname_of c) of
             Listening \<Rightarrow>
               if truthy_fork (fork c) then []
               else [Info (spider_web @ '' => Serving GraphQL Mesh: '' @ serverUrl c)]
           | BindError msg \<Rightarrow> [Error (''Unable to start GraphQL-Mesh: '' @ msg)]))"

definition handlers_stack :: "env \<Rightarrow> handler_config list option \<Rightarrow> mount list" where
  "handlers_stack e hso =
     (case hso of
        None \<Rightarrow> []
      | Some hs \<Rightarrow>
          concat (map (entry_mounts e) (filter (\<lambda>h. \<not> is_express h) hs)) @
          concat (map (entry_mounts e) (completion_order e hs)))"

subsection \<open>Example environments\<close>

text \<open>
  A worker-side environment in which every external call succeeds, and the same
  environment in the master process.
\<close>

definition example_env :: env where
  "example_env =
     \<lparr>isMaster = False, cpus = 4, NODE_ENV = None, cwd = ''/srv/mesh'', dirname = ''/cli/serve'',
      readFile = (\<lambda>f. Inr f), pathExists = (\<lambda>f. False), join = concat,
      createHTTPSServer = (\<lambda>k crt. None),
      loadFromModuleExportExpression = (\<lambda>x. Inr (HandlerFn x)),
      load_latency = (\<lambda>x. 1), loadDocuments = (\<lambda>q d. Inr []),
      bind = (\<lambda>n h. Listening)\<rparr>"


definition port_in_use_env :: env where
  "port_in_use_env = example_env\<lparr>bind := (\<lambda>n h. BindError ''listen EADDRINUSE'')\<rparr>"

text \<open>A context builder and a connection for examples.\<close>

definition example_contextBuilder :: "string \<Rightarrow> string" where
  "example_contextBuilder r = ''context for '' @ r"

definition example_connection :: "string ws_context" where
  "example_connection = \<lparr>extra = \<lparr>upgrade_request = ''GET /graphql''\<rparr>\<rparr>"

fun is_webhook :: "handler_config \<Rightarrow> bool" where
  "is_webhook (ExpressHandler pth expr m) = False"
| "is_webhook (WebhookHandler pth topic pl) = True"

definition playground_routes :: "string option \<Rightarrow> serve_config \<Rightarrow> mount list" where
  "playground_routes defaultQuery c =
     (if truthy_string (staticFiles c) then []
      else [Mount ''get'' (Some ''/'') [PlaygroundMiddleware defaultQuery graphqlPath]]) @
     [Mount ''get'' (Some graphqlPath) [PlaygroundMiddleware defaultQuery graphqlPath]]"

definition production_env :: env where
  "production_env = example_env\<lparr>NODE_ENV := Some ''Production''\<rparr>"

definition listener_config :: serve_config where
  "listener_config = empty_config\<lparr>port := Some 4000\<rparr>"

definition static_config :: serve_config where
  "static_config = empty_config\<lparr>port := Some 4000, staticFiles := Some ''public''\<rparr>"






section \<open>Properties of the phases\<close>


lemma and_then_Resolved:
  "and_then r f = Resolved p' \<longleftrightarrow> (\<exists>q. r = Resolved q \<and> f q = Resolved p')"
  by (cases r) auto

lemma create_server_Resolved:
  "create_server e c p = Resolved q \<Longrightarrow>
     stack q = stack p \<and> logs q = logs p \<and> forks q = forks p \<and> httpServer q \<noteq> None
     \<and> wsServer q = wsServer p \<and> listening q = listening p"
  by (auto simp: create_server_def split: option.splits sum.splits)


lemma mount_parsers_eq: "mount_parsers c p = p\<lparr>stack := stack p @ parser_stack c\<rparr>"
  by (simp add: mount_parsers_def parser_stack_def app_mount_def Let_def split: option.splits)

lemma mount_static_eq: "mount_static e d c p = p\<lparr>stack := stack p @ static_stack e d c\<rparr>"
  by (simp add: mount_static_def static_stack_def app_mount_def Let_def split: option.splits)

lemma mount_graphql_eq:
  "mount_graphql c p =
     p\<lparr>stack := stack p @ graphql_stack c,
       wsServer := Some \<lparr>ws_path = graphqlPath, graphql_ws = True\<rparr>\<rparr>"
  by (simp add: mount_graphql_def graphql_stack_def app_mount_def Let_def)

lemma start_handler_stack:
  "stack (start_handler h p) = stack p @ bridge_mount h"
  by (cases h) (simp_all add: start_handler_def app_mount_def)

lemma start_handler_unchanged: "unchanged_but_stack p (start_handler h p)"
  by (cases h) (simp_all add: start_handler_def app_mount_def unchanged_but_stack_def)

lemma unchanged_but_stack_trans:
  "unchanged_but_stack p q \<Longrightarrow> unchanged_but_stack q r \<Longrightarrow> unchanged_but_stack p r"
  by (simp add: unchanged_but_stack_def)

lemma unchanged_but_stack_refl: "unchanged_but_stack p p"
  by (simp add: unchanged_but_stack_def)

lemma start_handlers_stack:
  "stack (start_handlers hs p) = stack p @ concat (map bridge_mount hs)"
  by (induction hs arbitrary: p) (simp_all add: start_handler_stack)

lemma start_handlers_unchanged: "unchanged_but_stack p (start_handlers hs p)"
proof (induction hs arbitrary: p)
  case Nil
  show ?case by (simp add: unchanged_but_stack_refl)
next
  case (Cons h hs)
  show ?case
    using unchanged_but_stack_trans [OF start_handler_unchanged Cons.IH] by simp
qed

lemma entry_mounts_webhook:
  "entry_mounts e (WebhookHandler pth topic pl) = [Mount ''use'' (Some pth) [PubSubBridge topic pl]]"
  by (simp add: entry_mounts_def mount_handlers_def completion_order_def start_handler_def
      app_mount_def init_process_def)

lemma entry_mounts_express:
  "entry_mounts e (ExpressHandler pth expr m) =
     stack (state_of (resume_handler e (ExpressHandler pth expr m) init_process))"
  by (simp add: entry_mounts_def mount_handlers_def completion_order_def start_handler_def
      app_mount_def init_process_def Let_def split: sum.splits option.splits)

lemma resume_handler_Resolved:
  assumes "resume_handler e h p = Resolved q" and "is_express h"
  shows "stack q = stack p @ entry_mounts e h \<and> unchanged_but_stack p q"
proof (cases h)
  case (ExpressHandler pth expr m)
  with assms(1) show ?thesis
    by (auto simp: entry_mounts_express app_mount_def init_process_def Let_def
        unchanged_but_stack_def split: sum.splits option.splits if_splits)
next
  case (WebhookHandler pth topic pl)
  with assms(2) show ?thesis by simp
qed


lemma resume_handlers_Resolved:
  "resume_handlers e hs p = Resolved q \<Longrightarrow> list_all is_express hs \<Longrightarrow>
     stack q = stack p @ concat (map (entry_mounts e) hs) \<and> unchanged_but_stack p q"
proof (induction hs arbitrary: p)
  case Nil
  then show ?case by (simp add: unchanged_but_stack_refl)
next
  case (Cons h hs)
  from Cons.prems(1) obtain p1 where
    h: "resume_handler e h p = Resolved p1" and rest: "resume_handlers e hs p1 = Resolved q"
    by (auto simp: and_then_Resolved)
  from Cons.prems(2) have ex: "is_express h" and exs: "list_all is_express hs" by simp_all
  note a = resume_handler_Resolved [OF h ex]
  note b = Cons.IH [OF rest exs]
  from a b show ?case
    by (auto intro: unchanged_but_stack_trans)
qed


lemma concat_bridge_mount:
  "concat (map bridge_mount hs) = concat (map (entry_mounts e) (filter (\<lambda>h. \<not> is_express h) hs))"
proof (induction hs)
  case Nil
  show ?case by simp
next
  case (Cons h hs)
  then show ?case by (cases h) (simp_all add: entry_mounts_webhook)
qed

lemma list_all_completion_order: "list_all is_express (completion_order e hs)"
  by (simp add: completion_order_def list_all_iff)

lemma mount_handlers_Resolved:
  assumes "mount_handlers e (Some hs) p = Resolved q"
  shows "stack q = stack p @ concat (map (entry_mounts e) (filter (\<lambda>h. \<not> is_express h) hs))
                   @ concat (map (entry_mounts e) (completion_order e hs))"
    and "unchanged_but_stack p q"
proof -
  from assms have r: "resume_handlers e (completion_order e hs) (start_handlers hs p) = Resolved q"
    by (simp add: mount_handlers_def)
  note a = resume_handlers_Resolved [OF r list_all_completion_order]
  from a show "stack q = stack p @ concat (map (entry_mounts e) (filter (\<lambda>h. \<not> is_express h) hs))
                   @ concat (map (entry_mounts e) (completion_order e hs))"
    by (simp add: start_handlers_stack concat_bridge_mount [of hs e])
  from a show "unchanged_but_stack p q"
    using start_handlers_unchanged [of p hs] by (auto intro: unchanged_but_stack_trans)
qed


lemma mount_playground_Resolved:
  "mount_playground e d c p = Resolved q \<Longrightarrow> q = p\<lparr>stack := stack p @ playground_stack e d c\<rparr>"
  by (auto simp: mount_playground_def playground_stack_def app_mount_def Let_def
      split: if_splits sum.splits)


lemma listen_Resolved:
  "listen e c p = Resolved q \<Longrightarrow>
     stack q = stack p \<and> forks q = forks p \<and> httpServer q = httpServer p \<and>
     wsServer q = wsServer p \<and> logs q = logs p @ listen_logs e c \<and>
     (\<exists>n. port c = Some n \<and> 0 \<le> n \<and> n \<le> 65535 \<and>
          (case bind e n (hostname_of c) of
             Listening \<Rightarrow> listening q = Some (n, hostname_of c)
           | BindError msg \<Rightarrow> listening q = listening p))"
  by (auto simp: listen_def listen_logs_def logger_info_def logger_error_def Let_def
      split: option.splits if_splits bind_result.splits)


lemma mount_handlers_Resolved':
  assumes "mount_handlers e hso p = Resolved q"
  shows "stack q = stack p @ handlers_stack e hso \<and> unchanged_but_stack p q"
proof (cases hso)
  case None
  with assms show ?thesis
    by (simp add: mount_handlers_def handlers_stack_def unchanged_but_stack_refl)
next
  case (Some hs)
  with assms mount_handlers_Resolved [of e hs p q] show ?thesis
    by (simp add: handlers_stack_def)
qed

lemma serve_listener_Resolved:
  assumes "serve_listener e d c p0 = Resolved p"
  shows "stack p = stack p0 @ parser_stack c @ static_stack e d c @ graphql_stack c @
                   handlers_stack e (handlers c) @ playground_stack e d c"
    and "forks p = forks p0"
    and "logs p = logs p0 @ listen_logs e c"
    and "httpServer p \<noteq> None"
    and "wsServer p = Some \<lparr>ws_path = graphqlPath, graphql_ws = True\<rparr>"
    and "\<exists>n. port c = Some n \<and> 0 \<le> n \<and> n \<le> 65535 \<and>
          (case bind e n (hostname_of c) of
             Listening \<Rightarrow> listening p = Some (n, hostname_of c)
           | BindError msg \<Rightarrow> listening p = listening p0)"
proof -
  from assms obtain p1 p2 p3 where
    s1: "create_server e c (app_set ''trust proxy'' ''loopback'' p0) = Resolved p1" and
    s2: "mount_handlers e (handlers c)
           (mount_graphql c (mount_static e d c (mount_parsers c p1))) = Resolved p2" and
    s3: "mount_playground e d c p2 = Resolved p3" and
    s4: "listen e c p3 = Resolved p"
    by (auto simp: serve_listener_def and_then_Resolved)
  note a = create_server_Resolved [OF s1]
  note b = mount_handlers_Resolved' [OF s2]
  note c = mount_playground_Resolved [OF s3]
  note d = listen_Resolved [OF s4]
  from a b c d show "stack p = stack p0 @ parser_stack c @ static_stack e d c @ graphql_stack c @
                   handlers_stack e (handlers c) @ playground_stack e d c"
    by (simp add: mount_graphql_eq mount_static_eq mount_parsers_eq app_set_def)
  from a b c d show "forks p = forks p0"
    by (simp add: mount_graphql_eq mount_static_eq mount_parsers_eq app_set_def
        unchanged_but_stack_def)
  from a b c d show "logs p = logs p0 @ listen_logs e c"
    by (simp add: mount_graphql_eq mount_static_eq mount_parsers_eq app_set_def
        unchanged_but_stack_def)
  from a b c d show "httpServer p \<noteq> None"
    by (simp add: mount_graphql_eq mount_static_eq mount_parsers_eq app_set_def
        unchanged_but_stack_def)
  from a b c d show "wsServer p = Some \<lparr>ws_path = graphqlPath, graphql_ws = True\<rparr>"
    by (simp add: mount_graphql_eq mount_static_eq mount_parsers_eq app_set_def
        unchanged_but_stack_def)
  from a b c d show "\<exists>n. port c = Some n \<and> 0 \<le> n \<and> n \<le> 65535 \<and>
          (case bind e n (hostname_of c) of
             Listening \<Rightarrow> listening p = Some (n, hostname_of c)
           | BindError msg \<Rightarrow> listening p = listening p0)"
    by (auto simp add: mount_graphql_eq mount_static_eq mount_parsers_eq app_set_def
        unchanged_but_stack_def split: bind_result.splits)
qed



lemma init_process_fields:
  "forks init_process = 0" "logs init_process = []" "settings init_process = []"
  "httpServer init_process = None" "stack init_process = []" "wsServer init_process = None"
  "listening init_process = None"
  by (simp_all add: init_process_def)



lemma serveMesh_listener:
  "\<not> (isMaster e \<and> truthy_fork (fork c)) \<Longrightarrow>
   serveMesh e b (Some c) =
     serve_listener e (case b of None \<Rightarrow> cwd e | Some d \<Rightarrow> d) c init_process"
  by (auto simp add: serveMesh_def)

lemmas run_defs =
  serveMesh_def example_env_def empty_config_def serve_listener_def create_server_def
  app_set_def mount_parsers_def mount_static_def mount_graphql_def mount_handlers_def
  mount_playground_def playground_enabled_def load_defaultQuery_def listen_def app_mount_def
  hostname_of_def init_process_def completion_order_def start_handler_def Let_def
  handler_mounts_def is_handler_mount_def logger_info_def logger_error_def
  toLowerCase_def toLowerCase_char_def routing_methods_def

lemma handler_filter_parser [simp]: "filter is_handler_mount (parser_stack c) = []"
  by (simp add: parser_stack_def is_handler_mount_def split: option.splits)

lemma handler_filter_static [simp]: "filter is_handler_mount (static_stack e d c) = []"
  by (simp add: static_stack_def is_handler_mount_def split: option.splits)

lemma handler_filter_graphql [simp]: "filter is_handler_mount (graphql_stack c) = []"
  by (simp add: graphql_stack_def is_handler_mount_def)

lemma handler_filter_playground [simp]: "filter is_handler_mount (playground_stack e d c) = []"
  by (cases "playground_enabled e c"; cases "load_defaultQuery e d c";
      cases "truthy_string (staticFiles c)")
    (simp_all add: playground_stack_def is_handler_mount_def)

lemma handler_filter_entry [simp]: "filter is_handler_mount (entry_mounts e h) = entry_mounts e h"
proof (cases h)
  case (ExpressHandler pth expr m)
  then show ?thesis
    by (auto simp: entry_mounts_express is_handler_mount_def app_mount_def init_process_def
        Let_def split: sum.splits option.splits)
next
  case (WebhookHandler pth topic pl)
  then show ?thesis by (simp add: entry_mounts_webhook is_handler_mount_def)
qed

lemma handler_filter_entries [simp]:
  "filter is_handler_mount (concat (map (entry_mounts e) hs)) = concat (map (entry_mounts e) hs)"
  by (induction hs) simp_all

lemma handler_filter_handlers [simp]:
  "filter is_handler_mount (handlers_stack e hso) = handlers_stack e hso"
  by (simp add: handlers_stack_def split: option.splits)

lemma handler_mounts_Resolved:
  assumes "serve_listener e d c init_process = Resolved p"
  shows "handler_mounts p = handlers_stack e (handlers c)"
  using serve_listener_Resolved(1) [OF assms]
  by (simp add: handler_mounts_def init_process_fields)

lemma on_messages_step:
  "foldl (on_message ev cb ctx) s ms =
     s\<lparr>builder_calls := builder_calls s @
           replicate (length (filter ev ms)) (upgrade_request (extra ctx)),
        operations := operations s @
           map (\<lambda>m. (operation_id m, cb (upgrade_request (extra ctx)))) (filter ev ms)\<rparr>"
proof (induction ms arbitrary: s)
  case Nil
  show ?case by simp
next
  case (Cons m ms)
  have "foldl (on_message ev cb ctx) s (m # ms) =
        foldl (on_message ev cb ctx) (on_message ev cb ctx s m) ms"
    by simp
  also have "\<dots> = (on_message ev cb ctx s m)
      \<lparr>builder_calls := builder_calls (on_message ev cb ctx s m) @
           replicate (length (filter ev ms)) (upgrade_request (extra ctx)),
        operations := operations (on_message ev cb ctx s m) @
           map (\<lambda>m. (operation_id m, cb (upgrade_request (extra ctx)))) (filter ev ms)\<rparr>"
    by (rule Cons.IH)
  also have "\<dots> = s\<lparr>builder_calls := builder_calls s @
           replicate (length (filter ev (m # ms))) (upgrade_request (extra ctx)),
        operations := operations s @
           map (\<lambda>m. (operation_id m, cb (upgrade_request (extra ctx)))) (filter ev (m # ms))\<rparr>"
    by (simp add: on_message_def context_option_def)
  finally show ?case .
qed

lemma string_of_examples:
  "string_of_nat 3 = ''3''" "string_of_nat 4 = ''4''" "string_of_int 4000 = ''4000''"
  by (simp_all add: string_of_int_def string_of_nat.simps)

lemma playground_filter_parser [simp]: "filter is_playground_mount (parser_stack c) = []"
  by (simp add: parser_stack_def is_playground_mount_def split: option.splits)

lemma playground_filter_static [simp]: "filter is_playground_mount (static_stack e d c) = []"
  by (simp add: static_stack_def is_playground_mount_def split: option.splits)

lemma playground_filter_graphql [simp]: "filter is_playground_mount (graphql_stack c) = []"
  by (simp add: graphql_stack_def is_playground_mount_def)

lemma playground_filter_entry [simp]: "filter is_playground_mount (entry_mounts e h) = []"
proof (cases h)
  case (ExpressHandler pth expr m)
  then show ?thesis
    by (auto simp: entry_mounts_express is_playground_mount_def app_mount_def init_process_def
        Let_def split: sum.splits option.splits)
next
  case (WebhookHandler pth topic pl)
  then show ?thesis by (simp add: entry_mounts_webhook is_playground_mount_def)
qed

lemma playground_filter_entries [simp]:
  "filter is_playground_mount (concat (map (entry_mounts e) hs)) = []"
  by (induction hs) simp_all

lemma playground_filter_handlers [simp]:
  "filter is_playground_mount (handlers_stack e hso) = []"
  by (simp add: handlers_stack_def split: option.splits)

lemma playground_filter_playground:
  "filter is_playground_mount (playground_stack e d c) =
     (if playground_enabled e c
      then (case load_defaultQuery e d c of
              Inl err \<Rightarrow> []
            | Inr defaultQuery \<Rightarrow> playground_routes defaultQuery c)
      else [])"
  by (cases "playground_enabled e c"; cases "load_defaultQuery e d c";
      cases "truthy_string (staticFiles c)")
    (simp_all add: playground_stack_def is_playground_mount_def playground_routes_def)

lemma mount_playground_loads:
  "mount_playground e d c p = Resolved q \<Longrightarrow> playground_enabled e c \<Longrightarrow>
   \<exists>defaultQuery. load_defaultQuery e d c = Inr defaultQuery"
  by (auto simp: mount_playground_def split: sum.splits)

lemma serve_listener_loads:
  assumes "serve_listener e d c p0 = Resolved p" and "playground_enabled e c"
  shows "\<exists>defaultQuery. load_defaultQuery e d c = Inr defaultQuery"
proof -
  from assms(1) obtain p2 p3 where "mount_playground e d c p2 = Resolved p3"
    by (auto simp: serve_listener_def and_then_Resolved)
  then show ?thesis using assms(2) by (rule mount_playground_loads)
qed

lemma playground_mounts_Resolved:
  assumes "serve_listener e d c init_process = Resolved p"
  shows "playground_mounts p =
     (if playground_enabled e c
      then (case load_defaultQuery e d c of
              Inl err \<Rightarrow> []
            | Inr defaultQuery \<Rightarrow> playground_routes defaultQuery c)
      else [])"
  using serve_listener_Resolved(1) [OF assms]
  by (simp add: playground_mounts_def init_process_fields playground_filter_playground)

lemmas example_defs =
  production_env_def listener_config_def static_config_def port_in_use_env_def
  playground_mounts_def is_playground_mount_def





lemma create_server_settings:
  "settings (state_of (create_server e c p)) = settings p"
  "listening (state_of (create_server e c p)) = listening p"
  by (auto simp: create_server_def split: option.splits sum.splits)

lemma create_server_Resolved_settings:
  "create_server e c p = Resolved q \<Longrightarrow> settings q = settings p"
  using create_server_settings(1) [of e c p] by simp















section \<open>The claims\<close>

subsection \<open>The supervisor\<close>






subsection \<open>The configured handlers\<close>

text \<open>
  Claim C3 says that a handler entry is mounted under its method, matched without regard
  to case, and that an entry without a method is mounted for all methods, without raising.
  The source reads \<^verbatim>\<open>handlerConfig.method.toLowerCase() || 'use'\<close>: the fallback to
  \<^verbatim>\<open>use\<close> is there, but it is reached only for an empty method, because
  \<^verbatim>\<open>toLowerCase\<close> is read from the absent method first. For the single entry
  \<^verbatim>\<open>{path: '/ping', handler: './ping.js'}\<close> the promise of \<^verbatim>\<open>serveMesh\<close> rejects
  with that \<^verbatim>\<open>TypeError\<close>, nothing is mounted for the entry and the server never
  listens; with the method \<^verbatim>\<open>''\<close> the handler is mounted with \<^verbatim>\<open>use\<close>, and with
  \<^verbatim>\<open>'GeT'\<close> with \<^verbatim>\<open>get\<close>.
\<close>

theorem C3_absent_method_rejects:
  "rejection (serveMesh example_env None
     (Some (empty_config\<lparr>port := Some 4000,
              handlers := Some [ExpressHandler ''/ping'' ''./ping.js'' None]\<rparr>))) =
     Some (TypeError ''Cannot read property toLowerCase of undefined'') \<and>
   handler_mounts (state_of (serveMesh example_env None
     (Some (empty_config\<lparr>port := Some 4000,
              handlers := Some [ExpressHandler ''/ping'' ''./ping.js'' None]\<rparr>)))) = [] \<and>
   listening (state_of (serveMesh example_env None
     (Some (empty_config\<lparr>port := Some 4000,
              handlers := Some [ExpressHandler ''/ping'' ''./ping.js'' None]\<rparr>)))) = None \<and>
   handler_mounts (state_of (serveMesh example_env None
     (Some (empty_config\<lparr>port := Some 4000,
              handlers := Some [ExpressHandler ''/ping'' ''./ping.js'' (Some [])]\<rparr>)))) =
     [Mount ''use'' (Some ''/ping'') [LoadedHandler (HandlerFn ''./ping.js'')]] \<and>
   handler_mounts (state_of (serveMesh example_env None
     (Some (empty_config\<lparr>port := Some 4000,
              handlers := Some [ExpressHandler ''/ping'' ''./ping.js'' (Some ''GeT'')]\<rparr>)))) =
     [Mount ''get'' (Some ''/ping'') [LoadedHandler (HandlerFn ''./ping.js'')]]"
  by (simp add: run_defs)

text \<open>
  Claim C4 says that the entries are mounted in the order of the configuration, so that
  the entry listed first wins on a shared path. The calls for the entries run
  concurrently: a webhook entry is mounted during the synchronous pass over the list, a
  handler entry only after its module has loaded. For a handler entry on
  \<^verbatim>\<open>/hook\<close> listed before a webhook entry on \<^verbatim>\<open>/hook\<close>, the bridge is
  registered first.
\<close>

theorem C4_configuration_order_counterexample:
  "handler_mounts (state_of (serveMesh example_env None
     (Some (empty_config\<lparr>port := Some 4000,
              handlers := Some [ExpressHandler ''/hook'' ''./hook.js'' (Some ''POST''),
                                WebhookHandler ''/hook'' ''events'' None]\<rparr>)))) \<noteq>
   configuration_order example_env
     [ExpressHandler ''/hook'' ''./hook.js'' (Some ''POST''),
      WebhookHandler ''/hook'' ''events'' None] \<and>
   handler_mounts (state_of (serveMesh example_env None
     (Some (empty_config\<lparr>port := Some 4000,
              handlers := Some [ExpressHandler ''/hook'' ''./hook.js'' (Some ''POST''),
                                WebhookHandler ''/hook'' ''events'' None]\<rparr>)))) =
     [Mount ''use'' (Some ''/hook'') [PubSubBridge ''events'' None],
      Mount ''post'' (Some ''/hook'') [LoadedHandler (HandlerFn ''./hook.js'')]] \<and>
   configuration_order example_env
     [ExpressHandler ''/hook'' ''./hook.js'' (Some ''POST''),
      WebhookHandler ''/hook'' ''events'' None] =
     [Mount ''post'' (Some ''/hook'') [LoadedHandler (HandlerFn ''./hook.js'')],
      Mount ''use'' (Some ''/hook'') [PubSubBridge ''events'' None]]"
  by (simp add: run_defs configuration_order_def entry_mounts_def)

text \<open>
  Claim C4, amended: in a listener run that resolves, the webhook entries are mounted
  first, in the order of the configuration; the handler entries are mounted after them,
  in the order in which their modules finish loading (the order of the configuration
  among those that finish together).
\<close>

theorem C4_mount_order:
  assumes "serveMesh e b (Some c) = Resolved p"
    and "\<not> (isMaster e \<and> truthy_fork (fork c))"
    and "handlers c = Some hs"
  shows "handler_mounts p =
           configuration_order e (filter is_webhook hs) @
           configuration_order e (completion_order e hs)"
proof -
  have w: "filter is_webhook hs = filter (\<lambda>h. \<not> is_express h) hs"
    by (rule filter_cong [OF refl]) (case_tac x, simp_all)
  from assms(1) have "serve_listener e (case b of None \<Rightarrow> cwd e | Some d \<Rightarrow> d) c init_process
      = Resolved p"
    by (simp add: serveMesh_listener [OF assms(2)])
  then have "handler_mounts p = handlers_stack e (handlers c)"
    by (rule handler_mounts_Resolved)
  with assms(3) show ?thesis
    by (simp add: handlers_stack_def configuration_order_def w)
qed

text \<open>The amended claim C4 on a handler entry followed by two webhook entries.\<close>

theorem C4_mount_order_witness:
  "resolved (serveMesh example_env None
     (Some (empty_config\<lparr>port := Some 4000,
              handlers := Some [ExpressHandler ''/hook'' ''./hook.js'' (Some ''POST''),
                                WebhookHandler ''/hook'' ''events'' None,
                                WebhookHandler ''/other'' ''news'' (Some ''data'')]\<rparr>))) \<and>
   \<not> (isMaster example_env \<and> truthy_fork (fork (empty_config\<lparr>port := Some 4000,
              handlers := Some [ExpressHandler ''/hook'' ''./hook.js'' (Some ''POST''),
                                WebhookHandler ''/hook'' ''events'' None,
                                WebhookHandler ''/other'' ''news'' (Some ''data'')]\<rparr>))) \<and>
   handler_mounts (state_of (serveMesh example_env None
     (Some (empty_config\<lparr>port := Some 4000,
              handlers := Some [ExpressHandler ''/hook'' ''./hook.js'' (Some ''POST''),
                                WebhookHandler ''/hook'' ''events'' None,
                                WebhookHandler ''/other'' ''news'' (Some ''data'')]\<rparr>)))) =
     [Mount ''use'' (Some ''/hook'') [PubSubBridge ''events'' None],
      Mount ''use'' (Some ''/other'') [PubSubBridge ''news'' (Some ''data'')],
      Mount ''post'' (Some ''/hook'') [LoadedHandler (HandlerFn ''./hook.js'')]]"
  using C4_mount_order [of example_env None
      "empty_config\<lparr>port := Some 4000,
              handlers := Some [ExpressHandler ''/hook'' ''./hook.js'' (Some ''POST''),
                                WebhookHandler ''/hook'' ''events'' None,
                                WebhookHandler ''/other'' ''news'' (Some ''data'')]\<rparr>"
      "state_of (serveMesh example_env None
     (Some (empty_config\<lparr>port := Some 4000,
              handlers := Some [ExpressHandler ''/hook'' ''./hook.js'' (Some ''POST''),
                                WebhookHandler ''/hook'' ''events'' None,
                                WebhookHandler ''/other'' ''news'' (Some ''data'')]\<rparr>)))"
      "[ExpressHandler ''/hook'' ''./hook.js'' (Some ''POST''),
                                WebhookHandler ''/hook'' ''events'' None,
                                WebhookHandler ''/other'' ''news'' (Some ''data'')]"]
  by (simp add: run_defs configuration_order_def entry_mounts_def)

subsection \<open>The webhook bridge\<close>

text \<open>
  Claim C5: whenever the bridge of a webhook entry handles a request, it publishes
  exactly one message under the configured topic: the request body, or, when
  \<^verbatim>\<open>payload\<close> is a non-empty path, what \<^verbatim>\<open>get\<close> finds in the body at that
  path (an empty path is falsy and leaves the body). If \<^verbatim>\<open>get\<close> yields
  \<^verbatim>\<open>undefined\<close>, that value is published all the same. The bridge then ends the
  response and writes nothing to it, so a fresh response is an empty one with status
  \<open>200\<close>. The response depends neither on the subscribers of the bus nor on the
  method of the request, nothing is executed against the schema, and the bridge is
  registered with \<^verbatim>\<open>app.use\<close> on the path of the entry, hence for every method. This
  holds for every function \<^verbatim>\<open>get\<close>; that lodash's \<^verbatim>\<open>get\<close> does not throw on a
  JSON body is a property of that library.
\<close>

theorem C5_webhook_bridge:
  "published (snd (pubSubBridge get topic pl req res r)) =
     published r @
       [(topic, case pl of
                  None \<Rightarrow> body req
                | Some pth \<Rightarrow> if pth = [] then body req else get (body req) pth)] \<and>
   (\<forall>pth. pl = Some pth \<and> pth \<noteq> [] \<and> get (body req) pth = JUndefined \<longrightarrow>
      published (snd (pubSubBridge get topic pl req res r)) = published r @ [(topic, JUndefined)]) \<and>
   fst (pubSubBridge get topic pl req res r) = res\<lparr>ended := True\<rparr> \<and>
   fst (pubSubBridge get topic pl req fresh_response r) =
     \<lparr>statusCode = 200, written = [], ended = True\<rparr> \<and>
   executions (snd (pubSubBridge get topic pl req res r)) = executions r \<and>
   subscribers (snd (pubSubBridge get topic pl req res r)) = subscribers r \<and>
   fst (pubSubBridge get topic pl (req\<lparr>req_method := m\<rparr>) res (r\<lparr>subscribers := subs\<rparr>)) =
     fst (pubSubBridge get topic pl req res r) \<and>
   published (snd (pubSubBridge get topic pl (req\<lparr>req_method := m\<rparr>) res
                (r\<lparr>subscribers := subs\<rparr>))) =
     published (snd (pubSubBridge get topic pl req res r)) \<and>
   entry_mounts e (WebhookHandler pth' topic pl) =
     [Mount ''use'' (Some pth') [PubSubBridge topic pl]]"
  by (simp add: pubSubBridge_def publish_def res_end_def fresh_response_def Let_def
      entry_mounts_webhook split: option.splits)

text \<open>
  Claim C5 on the body \<^verbatim>\<open>{"event": {"id": 42}}\<close>: the path \<^verbatim>\<open>missing\<close> publishes
  \<^verbatim>\<open>undefined\<close>, the path \<^verbatim>\<open>event\<close> publishes \<^verbatim>\<open>{"id": 42}\<close>.
\<close>

theorem C5_webhook_bridge_witness:
  "Some ''missing'' = Some ''missing'' \<and> ''missing'' \<noteq> [] \<and>
   get_path (JObject [(''event'', JObject [(''id'', JNumber 42)])]) ''missing'' = JUndefined \<and>
   published (snd (pubSubBridge get_path ''events'' (Some ''missing'')
      \<lparr>req_method = ''POST'', url = ''/hook'',
        body = JObject [(''event'', JObject [(''id'', JNumber 42)])]\<rparr>
      fresh_response \<lparr>published = [], subscribers = [], executions = 0\<rparr>)) =
     [(''events'', JUndefined)] \<and>
   published (snd (pubSubBridge get_path ''events'' (Some ''event'')
      \<lparr>req_method = ''POST'', url = ''/hook'',
        body = JObject [(''event'', JObject [(''id'', JNumber 42)])]\<rparr>
      fresh_response \<lparr>published = [], subscribers = [], executions = 0\<rparr>)) =
     [(''events'', JObject [(''id'', JNumber 42)])]"
  using C5_webhook_bridge [of get_path "''events''" "Some ''missing''"
      "\<lparr>req_method = ''POST'', url = ''/hook'',
        body = JObject [(''event'', JObject [(''id'', JNumber 42)])]\<rparr>"
      fresh_response "\<lparr>published = [], subscribers = [], executions = 0\<rparr>"]
    C5_webhook_bridge [of get_path "''events''" "Some ''event''"
      "\<lparr>req_method = ''POST'', url = ''/hook'',
        body = JObject [(''event'', JObject [(''id'', JNumber 42)])]\<rparr>"
      fresh_response "\<lparr>published = [], subscribers = [], executions = 0\<rparr>"]
  by (simp add: get_path_def)

subsection \<open>Subscription contexts\<close>

text \<open>
  Claim C6 says that the context builder is invoked exactly once per connection, at the
  handshake, and that its result serves every operation of the connection. The source
  passes the builder inside the \<^verbatim>\<open>context\<close> option of the subscription server, which
  evaluates the option for each \<^verbatim>\<open>subscribe\<close> message: a connection with two
  subscriptions builds two contexts, and a connection without any builds none.
\<close>

theorem C6_context_once_counterexample:
  "builder_calls (on_messages graphql_ws_evaluates example_contextBuilder
      example_connection
      [ConnectionInit, Subscribe ''1'', Subscribe ''2'']) = [''GET /graphql'', ''GET /graphql''] \<and>
   builder_calls (on_messages graphql_ws_evaluates example_contextBuilder
      example_connection
      [ConnectionInit]) = []"
  by (simp add: on_messages_def on_message_def new_connection_def context_option_def
      example_connection_def)

text \<open>
  Claim C6, amended: on every connection the context builder is invoked once each time
  the subscription server evaluates its \<^verbatim>\<open>context\<close> option, always with the upgrade
  request of the connection, and the operation gets the context built for it; with
  \<^verbatim>\<open>graphql-ws\<close> that is once per \<^verbatim>\<open>subscribe\<close> message on the connection, not
  once at the handshake.
\<close>

theorem C6_context_per_evaluation:
  "builder_calls (on_messages ev contextBuilder ctx ms) =
     replicate (length (filter ev ms)) (upgrade_request (extra ctx)) \<and>
   operations (on_messages ev contextBuilder ctx ms) =
     map (\<lambda>m. (operation_id m, contextBuilder (upgrade_request (extra ctx)))) (filter ev ms) \<and>
   length (builder_calls (on_messages graphql_ws_evaluates contextBuilder ctx ms)) =
     length (filter graphql_ws_evaluates ms)"
  by (simp add: on_messages_def on_messages_step new_connection_def)

subsection \<open>The playground\<close>

text \<open>
  Claim C7: in a listener run that resolves, playground routes are mounted if and only
  if the \<^verbatim>\<open>playground\<close> flag is \<^verbatim>\<open>true\<close>, or the flag is absent and
  \<^verbatim>\<open>NODE_ENV\<close>, lower-cased, is not \<^verbatim>\<open>production\<close>. A flag that is present
  decides alone.
\<close>

theorem C7_playground_enablement:
  assumes "serveMesh e b (Some c) = Resolved p"
    and "\<not> (isMaster e \<and> truthy_fork (fork c))"
  shows "(playground_mounts p \<noteq> []) =
           (playground c = Some True \<or>
            playground c = None \<and> map_option toLowerCase (NODE_ENV e) \<noteq> Some ''production'')"
proof -
  from assms(1) have r: "serve_listener e (case b of None \<Rightarrow> cwd e | Some d \<Rightarrow> d) c init_process
      = Resolved p"
    by (simp add: serveMesh_listener [OF assms(2)])
  note m = playground_mounts_Resolved [OF r]
  have en: "playground_enabled e c =
      (playground c = Some True \<or>
       playground c = None \<and> map_option toLowerCase (NODE_ENV e) \<noteq> Some ''production'')"
    by (cases "playground c") (simp_all add: playground_enabled_def)
  show ?thesis
  proof (cases "playground_enabled e c")
    case True
    from serve_listener_loads [OF r True] obtain dq where
      "load_defaultQuery e (case b of None \<Rightarrow> cwd e | Some d \<Rightarrow> d) c = Inr dq" ..
    with m True have "playground_mounts p = playground_routes dq c" by simp
    then have "playground_mounts p \<noteq> []" by (simp add: playground_routes_def)
    with True en show ?thesis by simp
  next
    case False
    with m have "playground_mounts p = []" by simp
    with False en show ?thesis by simp
  qed
qed

text \<open>
  Claim C7 without a flag: playground routes without \<^verbatim>\<open>NODE_ENV\<close>, none with
  \<^verbatim>\<open>NODE_ENV=Production\<close>.
\<close>

theorem C7_playground_enablement_witness:
  "serveMesh example_env None (Some listener_config) =
     Resolved (state_of (serveMesh example_env None (Some listener_config))) \<and>
   \<not> (isMaster example_env \<and> truthy_fork (fork listener_config)) \<and>
   playground listener_config = None \<and>
   map_option toLowerCase (NODE_ENV example_env) \<noteq> Some ''production'' \<and>
   playground_mounts (state_of (serveMesh example_env None (Some listener_config))) \<noteq> [] \<and>
   serveMesh production_env None (Some listener_config) =
     Resolved (state_of (serveMesh production_env None (Some listener_config))) \<and>
   \<not> (isMaster production_env \<and> truthy_fork (fork listener_config)) \<and>
   map_option toLowerCase (NODE_ENV production_env) = Some ''production'' \<and>
   playground_mounts (state_of (serveMesh production_env None (Some listener_config))) = []"
  using C7_playground_enablement [of example_env None listener_config
      "state_of (serveMesh example_env None (Some listener_config))"]
    C7_playground_enablement [of production_env None listener_config
      "state_of (serveMesh production_env None (Some listener_config))"]
  by (simp add: run_defs example_defs)

text \<open>
  Claim C8: in a listener run that resolves with the playground enabled, if a
  static-assets root is configured, the playground is mounted at \<^verbatim>\<open>GET /graphql\<close> only
  and the static middleware is mounted; without a static-assets root (absent or empty),
  the playground is mounted at \<^verbatim>\<open>GET /\<close> and at \<^verbatim>\<open>GET /graphql\<close>.
\<close>

theorem C8_playground_root:
  assumes "serveMesh e b (Some c) = Resolved p"
    and "\<not> (isMaster e \<and> truthy_fork (fork c))"
    and "playground_enabled e c"
  shows "\<exists>defaultQuery.
           load_defaultQuery e (case b of None \<Rightarrow> cwd e | Some d \<Rightarrow> d) c = Inr defaultQuery \<and>
           (truthy_string (staticFiles c) \<longrightarrow>
              playground_mounts p =
                [Mount ''get'' (Some graphqlPath) [PlaygroundMiddleware defaultQuery graphqlPath]] \<and>
              Mount ''use'' None [ExpressStatic (case staticFiles c of Some dir \<Rightarrow> dir | None \<Rightarrow> [])]
                \<in> set (stack p)) \<and>
           (\<not> truthy_string (staticFiles c) \<longrightarrow>
              playground_mounts p =
                [Mount ''get'' (Some ''/'') [PlaygroundMiddleware defaultQuery graphqlPath],
                 Mount ''get'' (Some graphqlPath) [PlaygroundMiddleware defaultQuery graphqlPath]])"
proof -
  from assms(1) have r: "serve_listener e (case b of None \<Rightarrow> cwd e | Some d \<Rightarrow> d) c init_process
      = Resolved p"
    by (simp add: serveMesh_listener [OF assms(2)])
  from serve_listener_loads [OF r assms(3)] obtain dq where
    dq: "load_defaultQuery e (case b of None \<Rightarrow> cwd e | Some d \<Rightarrow> d) c = Inr dq" ..
  from playground_mounts_Resolved [OF r] assms(3) dq
  have m: "playground_mounts p = playground_routes dq c" by simp
  have s: "truthy_string (staticFiles c) \<Longrightarrow>
      Mount ''use'' None [ExpressStatic (case staticFiles c of Some dir \<Rightarrow> dir | None \<Rightarrow> [])]
        \<in> set (stack p)"
    using serve_listener_Resolved(1) [OF r]
    by (cases "staticFiles c") (simp_all add: static_stack_def)
  from dq m s show ?thesis
    by (auto simp: playground_routes_def)
qed

text \<open>Claim C8 with and without the static-assets root \<^verbatim>\<open>public\<close>.\<close>

theorem C8_playground_root_witness:
  "serveMesh example_env None (Some static_config) =
     Resolved (state_of (serveMesh example_env None (Some static_config))) \<and>
   \<not> (isMaster example_env \<and> truthy_fork (fork static_config)) \<and>
   playground_enabled example_env static_config \<and>
   truthy_string (staticFiles static_config) \<and>
   playground_mounts (state_of (serveMesh example_env None (Some static_config))) =
     [Mount ''get'' (Some ''/graphql'') [PlaygroundMiddleware None ''/graphql'']] \<and>
   serveMesh example_env None (Some listener_config) =
     Resolved (state_of (serveMesh example_env None (Some listener_config))) \<and>
   \<not> (isMaster example_env \<and> truthy_fork (fork listener_config)) \<and>
   playground_enabled example_env listener_config \<and>
   \<not> truthy_string (staticFiles listener_config) \<and>
   playground_mounts (state_of (serveMesh example_env None (Some listener_config))) =
     [Mount ''get'' (Some ''/'') [PlaygroundMiddleware None ''/graphql''],
      Mount ''get'' (Some ''/graphql'') [PlaygroundMiddleware None ''/graphql'']]"
  using C8_playground_root [of example_env None static_config
      "state_of (serveMesh example_env None (Some static_config))"]
    C8_playground_root [of example_env None listener_config
      "state_of (serveMesh example_env None (Some listener_config))"]
  by (simp add: run_defs example_defs graphqlPath_def)

subsection \<open>Binding the listener\<close>




subsection \<open>The GraphQL path and the defaults\<close>

text \<open>
  Claim C10: the GraphQL path is the constant \<^verbatim>\<open>/graphql\<close>. A listener run that
  resolves has mounted the GraphQL endpoint on it, with the upload limits of the
  configuration or else \<open>10000000\<close> bytes and \<open>10\<close> files, has mounted the JSON body
  parser with the configured limit or else \<^verbatim>\<open>100kb\<close>, and has put the WebSocket server
  on the same path. The serve URL ends with the path and names the configured host or
  else \<^verbatim>\<open>localhost\<close>; the server listens on that host, and the serving message of a
  process without \<^verbatim>\<open>fork\<close> carries that URL.
\<close>

theorem C10_path_and_defaults:
  assumes "serveMesh e b (Some c) = Resolved p"
    and "\<not> (isMaster e \<and> truthy_fork (fork c))"
  shows "graphqlPath = ''/graphql'' \<and>
         Mount ''use'' (Some ''/graphql'')
           [GraphqlUploadExpress
              (case upload c of
                 None \<Rightarrow> 10000000
               | Some u \<Rightarrow> (case maxFileSize u of None \<Rightarrow> 10000000 | Some n \<Rightarrow> n))
              (case upload c of
                 None \<Rightarrow> 10
               | Some u \<Rightarrow> (case maxFiles u of None \<Rightarrow> 10 | Some n \<Rightarrow> n)),
            GraphqlHandler] \<in> set (stack p) \<and>
         Mount ''use'' None
           [BodyParserJson (case maxRequestBodySize c of None \<Rightarrow> ''100kb'' | Some l \<Rightarrow> l)]
           \<in> set (stack p) \<and>
         wsServer p = Some \<lparr>ws_path = ''/graphql'', graphql_ws = True\<rparr> \<and>
         serverUrl c =
           (case sslCredentials c of None \<Rightarrow> ''http'' | Some creds \<Rightarrow> ''https'') @ ''://'' @
           (case hostname c of None \<Rightarrow> ''localhost'' | Some h \<Rightarrow> h) @ '':'' @
           (case port c of None \<Rightarrow> ''undefined'' | Some n \<Rightarrow> string_of_int n) @ ''/graphql'' \<and>
         (\<forall>n. port c = Some n \<and>
              bind e n (case hostname c of None \<Rightarrow> ''localhost'' | Some h \<Rightarrow> h) = Listening \<longrightarrow>
              listening p = Some (n, case hostname c of None \<Rightarrow> ''localhost'' | Some h \<Rightarrow> h) \<and>
              logs p =
                (if truthy_fork (fork c) then []
                 else [Info (spider_web @ '' => Serving GraphQL Mesh: '' @ serverUrl c)]))"
proof -
  from assms(1) have r: "serve_listener e (case b of None \<Rightarrow> cwd e | Some d \<Rightarrow> d) c init_process
      = Resolved p"
    by (simp add: serveMesh_listener [OF assms(2)])
  note s = serve_listener_Resolved [OF r]
  have g: "Mount ''use'' (Some ''/graphql'')
           [GraphqlUploadExpress
              (case upload c of
                 None \<Rightarrow> 10000000
               | Some u \<Rightarrow> (case maxFileSize u of None \<Rightarrow> 10000000 | Some n \<Rightarrow> n))
              (case upload c of
                 None \<Rightarrow> 10
               | Some u \<Rightarrow> (case maxFiles u of None \<Rightarrow> 10 | Some n \<Rightarrow> n)),
            GraphqlHandler] \<in> set (stack p)"
    using s(1) by (simp add: graphql_stack_def graphqlPath_def maxFileSize_of_def maxFiles_of_def)
  have bp: "Mount ''use'' None
           [BodyParserJson (case maxRequestBodySize c of None \<Rightarrow> ''100kb'' | Some l \<Rightarrow> l)]
           \<in> set (stack p)"
    using s(1) by (simp add: parser_stack_def)
  have ws: "wsServer p = Some \<lparr>ws_path = ''/graphql'', graphql_ws = True\<rparr>"
    using s(5) by (simp add: graphqlPath_def)
  have url: "serverUrl c =
           (case sslCredentials c of None \<Rightarrow> ''http'' | Some creds \<Rightarrow> ''https'') @ ''://'' @
           (case hostname c of None \<Rightarrow> ''localhost'' | Some h \<Rightarrow> h) @ '':'' @
           (case port c of None \<Rightarrow> ''undefined'' | Some n \<Rightarrow> string_of_int n) @ ''/graphql''"
    by (simp add: serverUrl_def protocol_def hostname_of_def graphqlPath_def)
  have l: "\<forall>n. port c = Some n \<and>
              bind e n (case hostname c of None \<Rightarrow> ''localhost'' | Some h \<Rightarrow> h) = Listening \<longrightarrow>
              listening p = Some (n, case hostname c of None \<Rightarrow> ''localhost'' | Some h \<Rightarrow> h) \<and>
              logs p =
                (if truthy_fork (fork c) then []
                 else [Info (spider_web @ '' => Serving GraphQL Mesh: '' @ serverUrl c)])"
    using s(3) s(6)
    by (auto simp: listen_logs_def init_process_fields hostname_of_def)
  have gp: "graphqlPath = ''/graphql''"
    by (simp add: graphqlPath_def)
  from gp g bp ws url l show ?thesis
    by blast
qed

text \<open>Claim C10 for a configuration that only sets the port.\<close>

theorem C10_path_and_defaults_witness:
  "serveMesh example_env None (Some listener_config) =
     Resolved (state_of (serveMesh example_env None (Some listener_config))) \<and>
   \<not> (isMaster example_env \<and> truthy_fork (fork listener_config)) \<and>
   port listener_config = Some 4000 \<and>
   bind example_env 4000 ''localhost'' = Listening \<and>
   Mount ''use'' (Some ''/graphql'') [GraphqlUploadExpress 10000000 10, GraphqlHandler]
     \<in> set (stack (state_of (serveMesh example_env None (Some listener_config)))) \<and>
   Mount ''use'' None [BodyParserJson ''100kb'']
     \<in> set (stack (state_of (serveMesh example_env None (Some listener_config)))) \<and>
   listening (state_of (serveMesh example_env None (Some listener_config))) =
     Some (4000, ''localhost'') \<and>
   logs (state_of (serveMesh example_env None (Some listener_config))) =
     [Info (spider_web @ '' => Serving GraphQL Mesh: http://localhost:4000/graphql'')]"
proof -
  have r: "serveMesh example_env None (Some listener_config) =
     Resolved (state_of (serveMesh example_env None (Some listener_config)))"
    by (simp add: run_defs example_defs)
  have w: "\<not> (isMaster example_env \<and> truthy_fork (fork listener_config))"
    by (simp add: example_env_def)
  have c: "port listener_config = Some 4000" "hostname listener_config = None"
    "upload listener_config = None" "maxRequestBodySize listener_config = None"
    "sslCredentials listener_config = None" "fork listener_config = None"
    by (simp_all add: listener_config_def empty_config_def)
  have bd: "bind example_env 4000 ''localhost'' = Listening"
    by (simp add: example_env_def)
  note t = C10_path_and_defaults [OF r w]
  from t have "Mount ''use'' (Some ''/graphql'') [GraphqlUploadExpress 10000000 10, GraphqlHandler]
     \<in> set (stack (state_of (serveMesh example_env None (Some listener_config))))"
    by (simp add: c graphqlPath_def)
  moreover from t
  have "Mount ''use'' None [BodyParserJson ''100kb'']
     \<in> set (stack (state_of (serveMesh example_env None (Some listener_config))))"
    by (simp add: c graphqlPath_def)
  moreover from t bd
  have "listening (state_of (serveMesh example_env None (Some listener_config))) =
     Some (4000, ''localhost'')"
    by (simp add: c graphqlPath_def)
  moreover from t bd
  have "logs (state_of (serveMesh example_env None (Some listener_config))) =
     [Info (spider_web @ '' => Serving GraphQL Mesh: http://localhost:4000/graphql'')]"
    by (simp add: c string_of_examples graphqlPath_def)
  ultimately show ?thesis using r w c(1) bd by blast
qed

end
